theory Spec2Isabelle
  imports Main
begin

section \<open>The host runtime seen by \<^verbatim>\<open>_luxem.c\<close>\<close>

text \<open>
  \<^verbatim>\<open>_luxem.c\<close> is the binding of the luxem engine to the Python interpreter. Every
  function of the file talks to two collaborators: the interpreter (objects, the pending
  exception, calls of Python callables) and the engine of \<^verbatim>\<open>c/luxem_rawread.h\<close> and
  \<^verbatim>\<open>c/luxem_rawwrite.h\<close>. The interpreter is modelled by the small state below; the
  engine entry points are either arguments of the binding's functions (as they are
  function pointers in the C code) or modelled from the specification, and marked so.

  A C string (pointer and length) is a \<^typ>\<open>string\<close>: a list of 8-bit characters.
\<close>

datatype pyobj =
    PyNone
  | PyLong int
  | PyUnicode string
  | PyLoneSurrogate "nat list"
  | PyBytes string
  | PyFileObj int
  | PyCallable nat
  | PyTuple "pyobj list"
  | PyRef nat

text \<open>
  \<open>PyUnicode s\<close> is a text string held by its UTF-8 encoding \<open>s\<close> (what
  \<^verbatim>\<open>PyUnicode_AsUTF8AndSize\<close> yields); \<open>PyLoneSurrogate cps\<close> is a text string, of
  code points \<open>cps\<close>, that holds a surrogate code point on its own and so has no UTF-8
  encoding (\<^verbatim>\<open>PyUnicode_AsUTF8AndSize\<close> fails on it); \<open>PyBytes s\<close> is a byte string (the type
  \<^verbatim>\<open>PyString\<close> of Python 2, \<^verbatim>\<open>bytes\<close> of Python 3); \<open>PyFileObj fd\<close> is an object
  with a file descriptor; \<open>PyRef a\<close> is the extension object at address \<open>a\<close>.
\<close>

datatype exctype =
    PyExc_TypeError
  | PyExc_ValueError
  | PyExc_UnicodeDecodeError
  | PyExc_UnicodeEncodeError
  | PyExc_Other nat

datatype pyexc = PyErr exctype "pyobj option"

record host =
  PY_MAJOR_VERSION :: nat
  curexc :: "pyexc option"
  calls :: "(pyobj \<times> pyobj) list"
  code :: "(pyobj \<times> pyobj) list \<Rightarrow> pyobj \<Rightarrow> pyobj \<Rightarrow> pyexc + pyobj"
  fds :: "int list"
  gil_released :: bool
  uninitialised :: nat

text \<open>
  \<open>PY_MAJOR_VERSION\<close> is the interpreter the file is compiled for: the macros at the top
  of \<^verbatim>\<open>_luxem.c\<close> have one definition for version 3 and later and one for earlier
  versions, and so have the definitions below. \<open>curexc\<close> is the interpreter's pending
  exception: a C function that returns \<^verbatim>\<open>NULL\<close> raises it. \<open>calls\<close> records every call
  of a Python callable made so far (callee and argument tuple, oldest first), and \<open>code\<close>
  is the behaviour of the callables: from the calls made so far, the callee and its
  arguments to an exception or a result. \<open>fds\<close> are the open file descriptors, and
  \<open>gil_released\<close> says whether the thread has given up the interpreter lock, and
  \<open>uninitialised\<close> is the value found in a \<^verbatim>\<open>size_t\<close> variable that was declared and
  never assigned. Running out
  of memory is not modelled: the calls that build objects succeed, and the branches of the
  C code for their failure are kept where they stand.
\<close>

datatype 'a outcome = Return 'a | Abort

text \<open>\<open>Abort\<close> is a failed \<^verbatim>\<open>assert\<close> or a dereferenced null pointer: the process ends.\<close>

definition PyErr_SetObject :: "exctype \<Rightarrow> pyobj option \<Rightarrow> host \<Rightarrow> host" where
  "PyErr_SetObject t v h = h\<lparr>curexc := Some (PyErr t v)\<rparr>"

definition py_str :: "host \<Rightarrow> string \<Rightarrow> pyobj" where
  "py_str h s = (if 3 \<le> PY_MAJOR_VERSION h then PyUnicode s else PyBytes s)"

definition PyErr_SetString :: "exctype \<Rightarrow> string \<Rightarrow> host \<Rightarrow> host" where
  "PyErr_SetString t s h = PyErr_SetObject t (Some (py_str h s)) h"

definition PyEval_CallObject :: "pyobj \<Rightarrow> pyobj \<Rightarrow> host \<Rightarrow> pyobj option \<times> host" where
  "PyEval_CallObject f args h =
     (case code h (calls h) f args of
        Inl e \<Rightarrow> (None, h\<lparr>curexc := Some e, calls := calls h @ [(f, args)]\<rparr>)
      | Inr r \<Rightarrow> (Some r, h\<lparr>calls := calls h @ [(f, args)]\<rparr>))"

definition Py_BuildValue0 :: "pyobj option" where
  "Py_BuildValue0 = Some (PyTuple [])"

definition Py_BuildValue1 :: "pyobj option \<Rightarrow> pyobj option" where
  "Py_BuildValue1 x = (case x of None \<Rightarrow> None | Some v \<Rightarrow> Some (PyTuple [v]))"

definition PyArg_ParseTuple_O :: "pyobj list \<Rightarrow> host \<Rightarrow> pyobj option \<times> host" where
  "PyArg_ParseTuple_O positional_args h =
     (case positional_args of
        [argument] \<Rightarrow> (Some argument, h)
      | _ \<Rightarrow> (None, PyErr_SetObject PyExc_TypeError None h))"

subsection \<open>UTF-8, as \<^verbatim>\<open>PyUnicode_FromStringAndSize\<close> checks it\<close>

definition cont :: "nat \<Rightarrow> bool" where
  "cont b = (0x80 \<le> b \<and> b \<le> 0xBF)"

fun utf8 :: "nat list \<Rightarrow> bool" where
  "utf8 [] = True"
| "utf8 (a # bs) =
     (if a < 0x80 then utf8 bs
      else if 0xC2 \<le> a \<and> a \<le> 0xDF then
        (case bs of b # r \<Rightarrow> cont b \<and> utf8 r | _ \<Rightarrow> False)
      else if 0xE0 \<le> a \<and> a \<le> 0xEF then
        (case bs of
           b # c # r \<Rightarrow>
             (if a = 0xE0 then 0xA0 \<le> b \<and> b \<le> 0xBF
              else if a = 0xED then 0x80 \<le> b \<and> b \<le> 0x9F
              else cont b) \<and> cont c \<and> utf8 r
         | _ \<Rightarrow> False)
      else if 0xF0 \<le> a \<and> a \<le> 0xF4 then
        (case bs of
           b # c # d # r \<Rightarrow>
             (if a = 0xF0 then 0x90 \<le> b \<and> b \<le> 0xBF
              else if a = 0xF4 then 0x80 \<le> b \<and> b \<le> 0x8F
              else cont b) \<and> cont c \<and> cont d \<and> utf8 r
         | _ \<Rightarrow> False)
      else False)"

definition utf8_valid :: "string \<Rightarrow> bool" where
  "utf8_valid s = utf8 (map of_char s)"

section \<open>Engine strings and the exception marker\<close>

text \<open>
  \<^verbatim>\<open>struct luxem_string_t\<close> is a pointer and a length. The binding compares the pointer of
  the engine's error string with the address of its own \<^verbatim>\<open>exception_marker\<close> to tell a
  failure raised by a Python callback from an error of the engine.
\<close>

datatype ptr = NULL | exception_marker | Chars string

record luxem_string_t =
  pointer :: ptr
  slength :: nat

text \<open>
  \<open>chars_at p n\<close> are the \<open>n\<close> characters at \<open>p\<close>. Nothing is read through
  \<^verbatim>\<open>NULL\<close> or through the address of the marker: what the engine does when it is
  handed a null pointer with a length is not fixed by the sources or the specification,
  and no theorem below depends on it.
\<close>

definition chars_at :: "ptr \<Rightarrow> nat \<Rightarrow> string" where
  "chars_at p n = (case p of Chars s \<Rightarrow> take n s | _ \<Rightarrow> [])"

definition WRAP_STRING_CHECK :: "host \<Rightarrow> pyobj \<Rightarrow> bool" where
  "WRAP_STRING_CHECK h o' =
     (if 3 \<le> PY_MAJOR_VERSION h
      then (case o' of PyUnicode _ \<Rightarrow> True | PyLoneSurrogate _ \<Rightarrow> True | _ \<Rightarrow> False)
      else (case o' of PyBytes _ \<Rightarrow> True | _ \<Rightarrow> False))"

definition WRAP_BYTES_CHECK :: "host \<Rightarrow> pyobj \<Rightarrow> bool" where
  "WRAP_BYTES_CHECK h o' = (case o' of PyBytes _ \<Rightarrow> True | _ \<Rightarrow> False)"

text \<open>
  \<^verbatim>\<open>WRAP_STRING_TO\<close> fills in the pointer and the length of a C string that the caller
  has declared and not initialised. For Python 3 it is \<^verbatim>\<open>PyUnicode_AsUTF8AndSize\<close>,
  which fails on a text string with a lone surrogate: it returns \<^verbatim>\<open>NULL\<close>, which the
  macro stores as the pointer, leaves an exception pending and does not write the length.
  For Python 2 it is \<^verbatim>\<open>PyString_AsStringAndSize\<close>. Neither caller in \<^verbatim>\<open>_luxem.c\<close>
  looks at the outcome, so the result is the C string as it then stands, and the host.
\<close>

definition WRAP_STRING_TO :: "host \<Rightarrow> pyobj \<Rightarrow> luxem_string_t \<times> host" where
  "WRAP_STRING_TO h o' =
     (if 3 \<le> PY_MAJOR_VERSION h then
        (case o' of
           PyUnicode s \<Rightarrow> (\<lparr>pointer = Chars s, slength = length s\<rparr>, h)
         | PyLoneSurrogate cps \<Rightarrow>
             (\<lparr>pointer = NULL, slength = uninitialised h\<rparr>,
              PyErr_SetObject PyExc_UnicodeEncodeError None h)
         | _ \<Rightarrow>
             (\<lparr>pointer = NULL, slength = uninitialised h\<rparr>,
              PyErr_SetObject PyExc_TypeError None h))
      else
        (case o' of
           PyBytes s \<Rightarrow> (\<lparr>pointer = Chars s, slength = length s\<rparr>, h)
         | _ \<Rightarrow>
             (\<lparr>pointer = NULL, slength = uninitialised h\<rparr>,
              PyErr_SetObject PyExc_TypeError None h)))"

definition WRAP_BYTES_TO :: "host \<Rightarrow> pyobj \<Rightarrow> luxem_string_t" where
  "WRAP_BYTES_TO h o' =
     (case o' of
        PyBytes s \<Rightarrow> \<lparr>pointer = Chars s, slength = length s\<rparr>
      | _ \<Rightarrow> \<lparr>pointer = NULL, slength = 0\<rparr>)"

definition WRAP_STRING_FROM :: "ptr \<Rightarrow> nat \<Rightarrow> host \<Rightarrow> pyobj option \<times> host" where
  "WRAP_STRING_FROM p n h =
     (if 3 \<le> PY_MAJOR_VERSION h then
        (if utf8_valid (chars_at p n) then (Some (PyUnicode (chars_at p n)), h)
         else (None, PyErr_SetObject PyExc_UnicodeDecodeError None h))
      else (Some (PyBytes (chars_at p n)), h))"

definition WRAP_BYTES_FROM :: "ptr \<Rightarrow> nat \<Rightarrow> host \<Rightarrow> pyobj option \<times> host" where
  "WRAP_BYTES_FROM p n h = (Some (PyBytes (chars_at p n)), h)"

section \<open>The writer\<close>

datatype out_t =
    No_out
  | Buffer_out string
  | File_out int
  | Callback_out

text \<open>
  Modelled from the spec: \<^verbatim>\<open>struct luxem_rawwrite_context_t\<close> of
  \<^verbatim>\<open>c/luxem_rawwrite.h\<close>, which is not part of the sources. The specification gives the
  writer context a sink fixed at construction (buffer, stream or callback), the
  pretty-printing configuration and an error string read through
  \<^verbatim>\<open>luxem_rawwrite_get_error\<close>. The nesting state of the engine is not needed below.
\<close>

record luxem_rawwrite_context_t =
  werror :: luxem_string_t
  out :: out_t
  pretty :: "(char \<times> int) option"

definition luxem_rawwrite_get_error :: "luxem_rawwrite_context_t \<Rightarrow> luxem_string_t" where
  "luxem_rawwrite_get_error c = werror c"

record Writer =
  ob_refcnt :: nat
  wcontext :: luxem_rawwrite_context_t
  target :: "pyobj option"
  wfile :: "int option"

type_synonym void_method =
  "luxem_rawwrite_context_t \<Rightarrow> host \<Rightarrow> bool \<times> luxem_rawwrite_context_t \<times> host"

type_synonym string_method =
  "luxem_rawwrite_context_t \<Rightarrow> luxem_string_t \<Rightarrow> host \<Rightarrow>
     bool \<times> luxem_rawwrite_context_t \<times> host"

text \<open>
  The engine's seven writing entry points, \<^verbatim>\<open>luxem_rawwrite_object_begin\<close> to
  \<^verbatim>\<open>luxem_rawwrite_primitive\<close>, are declared in \<^verbatim>\<open>c/luxem_rawwrite.h\<close> and defined
  outside the sources. The binding reaches them through function pointers; here they
  are the fields of a record that the binding's functions take as an argument.
\<close>

record rawwrite =
  luxem_rawwrite_object_begin :: void_method
  luxem_rawwrite_object_end :: void_method
  luxem_rawwrite_array_begin :: void_method
  luxem_rawwrite_array_end :: void_method
  luxem_rawwrite_key :: string_method
  luxem_rawwrite_type :: string_method
  luxem_rawwrite_primitive :: string_method

text \<open>
  The callback sink of \<^verbatim>\<open>_luxem.c\<close>: the engine hands it a run of bytes, and it calls
  the writer's target with them. A target that raises leaves the exception marker in the
  engine's error string.
\<close>

definition translate_rawwrite_write ::
  "luxem_rawwrite_context_t \<Rightarrow> Writer \<Rightarrow> luxem_string_t \<Rightarrow> host \<Rightarrow>
     bool outcome \<times> luxem_rawwrite_context_t \<times> host" where
  "translate_rawwrite_write context' user_data string' h =
     (case Py_BuildValue1 (Some (PyBytes (chars_at (pointer string') (slength string')))) of
        None \<Rightarrow> (Return False, context', h)
      | Some arguments \<Rightarrow>
          (case target user_data of
             None \<Rightarrow> (Abort, context', h)
           | Some callee \<Rightarrow>
               (case PyEval_CallObject callee arguments h of
                  (None, h1) \<Rightarrow>
                    (Return False,
                     context'\<lparr>werror := \<lparr>pointer = exception_marker, slength = 0\<rparr>\<rparr>, h1)
                | (Some result, h1) \<Rightarrow> (Return True, context', h1))))"

text \<open>
  \<^verbatim>\<open>translate_void_method\<close> and \<^verbatim>\<open>translate_string_method\<close> report a failed engine
  call with the same lines; they are written once, as \<open>raise_rawwrite_error\<close>.
\<close>

definition raise_rawwrite_error ::
  "luxem_rawwrite_context_t \<Rightarrow> host \<Rightarrow> pyobj option outcome \<times> host" where
  "raise_rawwrite_error c h =
     (if pointer (luxem_rawwrite_get_error c) \<noteq> exception_marker then
        (let error = luxem_rawwrite_get_error c in
         if \<not> 0 < slength error then (Abort, h)
         else
           (case WRAP_STRING_FROM (pointer error) (slength error) h of
              (v, h1) \<Rightarrow> (Return None, PyErr_SetObject PyExc_ValueError v h1)))
      else if slength (luxem_rawwrite_get_error c) \<noteq> 0 then (Abort, h)
      else (Return None, h))"

definition translate_void_method ::
  "nat \<Rightarrow> Writer \<Rightarrow> void_method \<Rightarrow> host \<Rightarrow> pyobj option outcome \<times> Writer \<times> host" where
  "translate_void_method self w method h =
     (case method (wcontext w) h of
        (False, c, h1) \<Rightarrow>
          (case raise_rawwrite_error c h1 of (r, h2) \<Rightarrow> (r, w\<lparr>wcontext := c\<rparr>, h2))
      | (True, c, h1) \<Rightarrow>
          (Return (Some (PyRef self)),
           w\<lparr>wcontext := c, ob_refcnt := Suc (ob_refcnt w)\<rparr>, h1))"

definition Writer_object_begin ::
  "rawwrite \<Rightarrow> nat \<Rightarrow> Writer \<Rightarrow> host \<Rightarrow> pyobj option outcome \<times> Writer \<times> host" where
  "Writer_object_begin E self w h =
     translate_void_method self w (luxem_rawwrite_object_begin E) h"

definition Writer_object_end ::
  "rawwrite \<Rightarrow> nat \<Rightarrow> Writer \<Rightarrow> host \<Rightarrow> pyobj option outcome \<times> Writer \<times> host" where
  "Writer_object_end E self w h =
     translate_void_method self w (luxem_rawwrite_object_end E) h"

definition Writer_array_begin ::
  "rawwrite \<Rightarrow> nat \<Rightarrow> Writer \<Rightarrow> host \<Rightarrow> pyobj option outcome \<times> Writer \<times> host" where
  "Writer_array_begin E self w h =
     translate_void_method self w (luxem_rawwrite_array_begin E) h"

definition Writer_array_end ::
  "rawwrite \<Rightarrow> nat \<Rightarrow> Writer \<Rightarrow> host \<Rightarrow> pyobj option outcome \<times> Writer \<times> host" where
  "Writer_array_end E self w h =
     translate_void_method self w (luxem_rawwrite_array_end E) h"

definition translate_string_method ::
  "nat \<Rightarrow> Writer \<Rightarrow> pyobj list \<Rightarrow> string_method \<Rightarrow> string \<Rightarrow> host \<Rightarrow>
     pyobj option outcome \<times> Writer \<times> host" where
  "translate_string_method self w positional_args method badargs h =
     (case PyArg_ParseTuple_O positional_args h of
        (None, h0) \<Rightarrow> (Return None, w, h0)
      | (Some argument, h0) \<Rightarrow>
          if WRAP_STRING_CHECK h0 argument then
            (case WRAP_STRING_TO h0 argument of
               (string', hs) \<Rightarrow>
                 (case method (wcontext w) string' hs of
                    (False, c, h1) \<Rightarrow>
                      (case raise_rawwrite_error c h1 of
                         (r, h2) \<Rightarrow> (r, w\<lparr>wcontext := c\<rparr>, h2))
                  | (True, c, h1) \<Rightarrow>
                      (Return (Some (PyRef self)),
                       w\<lparr>wcontext := c, ob_refcnt := Suc (ob_refcnt w)\<rparr>, h1)))
          else (Return None, w, PyErr_SetString PyExc_TypeError badargs h0))"

definition Writer_key ::
  "rawwrite \<Rightarrow> nat \<Rightarrow> Writer \<Rightarrow> pyobj list \<Rightarrow> host \<Rightarrow>
     pyobj option outcome \<times> Writer \<times> host" where
  "Writer_key E self w positional_args h =
     translate_string_method self w positional_args (luxem_rawwrite_key E)
       ''luxem.RawWriter.key requires a single string argument.'' h"

definition Writer_type ::
  "rawwrite \<Rightarrow> nat \<Rightarrow> Writer \<Rightarrow> pyobj list \<Rightarrow> host \<Rightarrow>
     pyobj option outcome \<times> Writer \<times> host" where
  "Writer_type E self w positional_args h =
     translate_string_method self w positional_args (luxem_rawwrite_type E)
       ''luxem.RawWriter.type requires a single string argument.'' h"

definition Writer_primitive ::
  "rawwrite \<Rightarrow> nat \<Rightarrow> Writer \<Rightarrow> pyobj list \<Rightarrow> host \<Rightarrow>
     pyobj option outcome \<times> Writer \<times> host" where
  "Writer_primitive E self w positional_args h =
     translate_string_method self w positional_args (luxem_rawwrite_primitive E)
       ''luxem.RawWriter.primitive requires a single string argument.'' h"

subsection \<open>Construction and \<^verbatim>\<open>dump\<close>\<close>

text \<open>
  Modelled from the spec: \<^verbatim>\<open>luxem_rawwrite_construct\<close>, the four configuration calls
  \<^verbatim>\<open>luxem_rawwrite_set_buffer_out\<close>, \<^verbatim>\<open>luxem_rawwrite_set_file_out\<close>,
  \<^verbatim>\<open>luxem_rawwrite_set_write_callback\<close> and \<^verbatim>\<open>luxem_rawwrite_set_pretty\<close>, and
  \<^verbatim>\<open>luxem_rawwrite_buffer_render\<close>, all declared in \<^verbatim>\<open>c/luxem_rawwrite.h\<close> and
  defined outside the sources. The specification (4.2) says that the sink is chosen once,
  that the buffer sink accumulates all written bytes and hands back everything written so
  far, and that asking any other sink for them is an error. \<open>buffer_accumulate\<close> is the
  delivery of one run of bytes to the sink, as far as the specification fixes it: a buffer
  sink appends the run. The text of the engine's error message is not given by the
  specification.
\<close>

definition luxem_rawwrite_construct :: "luxem_rawwrite_context_t option" where
  "luxem_rawwrite_construct =
     Some \<lparr>werror = \<lparr>pointer = NULL, slength = 0\<rparr>, out = No_out, pretty = None\<rparr>"

definition luxem_rawwrite_set_buffer_out ::
  "luxem_rawwrite_context_t \<Rightarrow> luxem_rawwrite_context_t" where
  "luxem_rawwrite_set_buffer_out c = c\<lparr>out := Buffer_out []\<rparr>"

definition luxem_rawwrite_set_file_out ::
  "luxem_rawwrite_context_t \<Rightarrow> int \<Rightarrow> luxem_rawwrite_context_t" where
  "luxem_rawwrite_set_file_out c f = c\<lparr>out := File_out f\<rparr>"

definition luxem_rawwrite_set_write_callback ::
  "luxem_rawwrite_context_t \<Rightarrow> luxem_rawwrite_context_t" where
  "luxem_rawwrite_set_write_callback c = c\<lparr>out := Callback_out\<rparr>"

definition luxem_rawwrite_set_pretty ::
  "luxem_rawwrite_context_t \<Rightarrow> char \<Rightarrow> int \<Rightarrow> luxem_rawwrite_context_t" where
  "luxem_rawwrite_set_pretty c spacer multiple = c\<lparr>pretty := Some (spacer, multiple)\<rparr>"

definition buffer_accumulate ::
  "string \<Rightarrow> luxem_rawwrite_context_t \<Rightarrow> luxem_rawwrite_context_t" where
  "buffer_accumulate run c =
     (case out c of Buffer_out b \<Rightarrow> c\<lparr>out := Buffer_out (b @ run)\<rparr> | _ \<Rightarrow> c)"

definition luxem_rawwrite_buffer_render ::
  "luxem_rawwrite_context_t \<Rightarrow> luxem_string_t option \<times> luxem_rawwrite_context_t" where
  "luxem_rawwrite_buffer_render c =
     (case out c of
        Buffer_out b \<Rightarrow> (Some \<lparr>pointer = Chars b, slength = length b\<rparr>, c)
      | _ \<Rightarrow>
         (None, c\<lparr>werror := \<lparr>pointer = Chars ''not serializing to a buffer'',
                               slength = length ''not serializing to a buffer''\<rparr>\<rparr>))"

text \<open>
  From here on the definitions follow \<^verbatim>\<open>_luxem.c\<close> again. \<^verbatim>\<open>FILE *\<close> is the file
  descriptor it wraps.
\<close>

definition compat_file_check :: "pyobj \<Rightarrow> bool" where
  "compat_file_check o' = (case o' of PyLong _ \<Rightarrow> True | PyFileObj _ \<Rightarrow> True | _ \<Rightarrow> False)"

definition PyObject_AsFileDescriptor :: "pyobj \<Rightarrow> host \<Rightarrow> int \<times> host" where
  "PyObject_AsFileDescriptor o' h =
     (case o' of
        PyLong n \<Rightarrow> if 0 \<le> n then (n, h) else (- 1, PyErr_SetObject PyExc_ValueError None h)
      | PyFileObj n \<Rightarrow> if 0 \<le> n then (n, h) else (- 1, PyErr_SetObject PyExc_ValueError None h)
      | _ \<Rightarrow> (- 1, PyErr_SetObject PyExc_TypeError None h))"

definition fdopen :: "int \<Rightarrow> string \<Rightarrow> host \<Rightarrow> int option" where
  "fdopen fd mode h = (if fd \<in> set (fds h) then Some fd else None)"

definition compat_file_file :: "pyobj \<Rightarrow> string \<Rightarrow> host \<Rightarrow> int option \<times> host" where
  "compat_file_file o' mode h =
     (case PyObject_AsFileDescriptor o' h of
        (fd, h1) \<Rightarrow>
          if fd = - 1 then (None, h1)
          else
            (case fdopen fd mode h1 of
               None \<Rightarrow> (None, PyErr_SetString PyExc_TypeError ''Could not access file.'' h1)
             | Some out' \<Rightarrow> (Some out', h1)))"

definition WRAP_FILE_CHECK :: "host \<Rightarrow> pyobj \<Rightarrow> bool" where
  "WRAP_FILE_CHECK h o' =
     (if 3 \<le> PY_MAJOR_VERSION h then compat_file_check o'
      else (case o' of PyFileObj _ \<Rightarrow> True | _ \<Rightarrow> False))"

definition WRAP_FILE_TO :: "pyobj \<Rightarrow> string \<Rightarrow> host \<Rightarrow> int option \<times> host" where
  "WRAP_FILE_TO o' mode h =
     (if 3 \<le> PY_MAJOR_VERSION h then compat_file_file o' mode h
      else (case o' of
              PyFileObj n \<Rightarrow> if n \<in> set (fds h) then (Some n, h) else (None, h)
            | _ \<Rightarrow> (None, h)))"

definition Writer_new :: "Writer option" where
  "Writer_new =
     (case luxem_rawwrite_construct of
        None \<Rightarrow> None
      | Some c \<Rightarrow> Some \<lparr>ob_refcnt = 1, wcontext = c, target = None, wfile = None\<rparr>)"

text \<open>
  The keyword arguments of \<^verbatim>\<open>Writer_init\<close> after \<^verbatim>\<open>PyArg_ParseTupleAndKeywords\<close> with
  format \<^verbatim>\<open>|Obbi\<close>: each is optional, and an argument that is not given leaves the C
  variable as it was. \<open>None\<close> for the whole record is a failed parse.
\<close>

record Writer_args =
  arg_target :: "pyobj option"
  arg_pretty :: "bool option"
  arg_use_spaces :: "bool option"
  arg_indent_multiple :: "int option"

definition Writer_init :: "Writer \<Rightarrow> Writer_args option \<Rightarrow> host \<Rightarrow> int \<times> Writer \<times> host" where
  "Writer_init self named_args h =
     (case named_args of
        None \<Rightarrow> (- 1, self, PyErr_SetObject PyExc_TypeError None h)
      | Some a \<Rightarrow>
          (let pretty' = (case arg_pretty a of None \<Rightarrow> False | Some b \<Rightarrow> b);
               use_spaces = (case arg_use_spaces a of None \<Rightarrow> False | Some b \<Rightarrow> b);
               indent_multiple = (case arg_indent_multiple a of None \<Rightarrow> 1 | Some i \<Rightarrow> i);
               self1 = (case arg_target a of None \<Rightarrow> self | Some t \<Rightarrow> self\<lparr>target := Some t\<rparr>);
               finish = (\<lambda>s h'.
                 (0, (if pretty'
                      then s\<lparr>wcontext := luxem_rawwrite_set_pretty (wcontext s)
                                (if use_spaces then CHR '' '' else CHR 0x09) indent_multiple\<rparr>
                      else s), h'))
           in case target self1 of
                Some t \<Rightarrow>
                  if WRAP_FILE_CHECK h t then
                    (case WRAP_FILE_TO t ''w'' h of
                       (None, h1) \<Rightarrow> (- 1, self1\<lparr>wfile := None\<rparr>, h1)
                     | (Some f, h1) \<Rightarrow>
                         finish (self1\<lparr>wfile := Some f,
                                   wcontext := luxem_rawwrite_set_file_out (wcontext self1) f\<rparr>) h1)
                  else
                    finish (self1\<lparr>wcontext :=
                                     luxem_rawwrite_set_write_callback (wcontext self1)\<rparr>) h
              | None \<Rightarrow>
                  finish (self1\<lparr>wcontext := luxem_rawwrite_set_buffer_out (wcontext self1)\<rparr>) h))"

definition Writer_dump :: "Writer \<Rightarrow> host \<Rightarrow> pyobj option outcome \<times> Writer \<times> host" where
  "Writer_dump self h =
     (if target self \<noteq> None then
        (Return None, self,
         PyErr_SetString PyExc_TypeError
           ''luxem.RawWriter.dump can only be used if not using a custom serialize callback for serializing to file.''
           h)
      else
        (case luxem_rawwrite_buffer_render (wcontext self) of
           (None, c) \<Rightarrow>
             (let error = luxem_rawwrite_get_error c in
              if \<not> 0 < slength error then (Abort, self\<lparr>wcontext := c\<rparr>, h)
              else
                (case WRAP_STRING_FROM (pointer error) (slength error) h of
                   (v, h1) \<Rightarrow>
                     (Return None, self\<lparr>wcontext := c\<rparr>, PyErr_SetObject PyExc_ValueError v h1)))
         | (Some rendered, c) \<Rightarrow>
             (case WRAP_BYTES_FROM (pointer rendered) (slength rendered) h of
                (out', h1) \<Rightarrow> (Return out', self\<lparr>wcontext := c\<rparr>, h1))))"

text \<open>
  \<^verbatim>\<open>RawWriter(...)\<close> runs \<^verbatim>\<open>Writer_new\<close>, then \<^verbatim>\<open>Writer_init\<close> on the object it
  returns; the writer exists when the first gives an object and the second returns 0.
\<close>

definition constructed :: "Writer_args \<Rightarrow> host \<Rightarrow> Writer option" where
  "constructed a h =
     (case Writer_new of
        None \<Rightarrow> None
      | Some self \<Rightarrow>
          (case Writer_init self (Some a) h of (r, w, h1) \<Rightarrow> if r = 0 then Some w else None))"

section \<open>The reader\<close>

text \<open>
  Modelled from the spec: \<^verbatim>\<open>struct luxem_rawread_context_t\<close> and
  \<^verbatim>\<open>struct luxem_rawread_callbacks_t\<close> of \<^verbatim>\<open>c/luxem_rawread.h\<close>, which is not part of
  the sources. The specification (3, 4.1) gives the parser an error string, a cumulative
  byte position and a parsing state (nesting stack, awaited kind, pending token), here of
  an arbitrary type \<open>'p\<close> because the grammar is not part of the sources. The table of
  callbacks that \<^verbatim>\<open>Reader_new\<close> fills in is kept beside the context; each entry takes the
  context and the user data, as in C.
\<close>

record 'p luxem_rawread_context_t =
  rerror :: luxem_string_t
  position :: nat
  pstate :: 'p

definition luxem_rawread_get_error :: "'p luxem_rawread_context_t \<Rightarrow> luxem_string_t" where
  "luxem_rawread_get_error c = rerror c"

definition luxem_rawread_get_position :: "'p luxem_rawread_context_t \<Rightarrow> nat" where
  "luxem_rawread_get_position c = position c"

definition luxem_rawread_construct :: "'p \<Rightarrow> 'p luxem_rawread_context_t option" where
  "luxem_rawread_construct p0 =
     Some \<lparr>rerror = \<lparr>pointer = NULL, slength = 0\<rparr>, position = 0, pstate = p0\<rparr>"

record 'p Reader =
  rcontext :: "'p luxem_rawread_context_t"
  object_begin :: "pyobj option"
  object_end :: "pyobj option"
  array_begin :: "pyobj option"
  array_end :: "pyobj option"
  key :: "pyobj option"
  type :: "pyobj option"
  primitive :: "pyobj option"
  thread_state :: "nat option"

type_synonym 'p luxem_rawread_void_callback_t =
  "'p luxem_rawread_context_t \<Rightarrow> 'p Reader \<Rightarrow> host \<Rightarrow>
     bool outcome \<times> 'p luxem_rawread_context_t \<times> host"

type_synonym 'p luxem_rawread_string_callback_t =
  "'p luxem_rawread_context_t \<Rightarrow> 'p Reader \<Rightarrow> luxem_string_t \<Rightarrow> host \<Rightarrow>
     bool outcome \<times> 'p luxem_rawread_context_t \<times> host"

record 'p luxem_rawread_callbacks_t =
  cb_object_begin :: "'p luxem_rawread_void_callback_t"
  cb_object_end :: "'p luxem_rawread_void_callback_t"
  cb_array_begin :: "'p luxem_rawread_void_callback_t"
  cb_array_end :: "'p luxem_rawread_void_callback_t"
  cb_key :: "'p luxem_rawread_string_callback_t"
  cb_type :: "'p luxem_rawread_string_callback_t"
  cb_primitive :: "'p luxem_rawread_string_callback_t"

text \<open>
  The two callback macros of \<^verbatim>\<open>_luxem.c\<close>. \<open>name\<close> selects the listener of the reader
  object, as \<^verbatim>\<open>user_data->name\<close> does. Calling a listener that is \<^verbatim>\<open>NULL\<close>, and
  releasing the \<^verbatim>\<open>NULL\<close> that \<^verbatim>\<open>WRAP_STRING_FROM\<close> returns for a payload it cannot
  decode, dereference a null pointer.
\<close>

definition TRANSLATE_VOID_CALLBACK ::
  "('p Reader \<Rightarrow> pyobj option) \<Rightarrow> 'p luxem_rawread_void_callback_t" where
  "TRANSLATE_VOID_CALLBACK name context' user_data h =
     (case Py_BuildValue0 of
        None \<Rightarrow> (Return False, context', h)
      | Some arguments \<Rightarrow>
          (case name user_data of
             None \<Rightarrow> (Abort, context', h)
           | Some callee \<Rightarrow>
               (case PyEval_CallObject callee arguments h of
                  (None, h1) \<Rightarrow>
                    (Return False,
                     context'\<lparr>rerror := \<lparr>pointer = exception_marker, slength = 0\<rparr>\<rparr>, h1)
                | (Some result, h1) \<Rightarrow> (Return True, context', h1))))"

definition translate_rawread_object_begin :: "'p luxem_rawread_void_callback_t" where
  "translate_rawread_object_begin = TRANSLATE_VOID_CALLBACK object_begin"

definition translate_rawread_object_end :: "'p luxem_rawread_void_callback_t" where
  "translate_rawread_object_end = TRANSLATE_VOID_CALLBACK object_end"

definition translate_rawread_array_begin :: "'p luxem_rawread_void_callback_t" where
  "translate_rawread_array_begin = TRANSLATE_VOID_CALLBACK array_begin"

definition translate_rawread_array_end :: "'p luxem_rawread_void_callback_t" where
  "translate_rawread_array_end = TRANSLATE_VOID_CALLBACK array_end"

definition TRANSLATE_STRING_CALLBACK ::
  "('p Reader \<Rightarrow> pyobj option) \<Rightarrow> 'p luxem_rawread_string_callback_t" where
  "TRANSLATE_STRING_CALLBACK name context' user_data string' h =
     (case WRAP_STRING_FROM
             (if pointer string' = NULL then Chars [] else pointer string')
             (slength string') h of
        (prearguments, h0) \<Rightarrow>
          (let arguments = Py_BuildValue1 prearguments in
           if prearguments = None then (Abort, context', h0)
           else
             (case arguments of
                None \<Rightarrow> (Return False, context', h0)
              | Some arguments' \<Rightarrow>
                  (case name user_data of
                     None \<Rightarrow> (Abort, context', h0)
                   | Some callee \<Rightarrow>
                       (case PyEval_CallObject callee arguments' h0 of
                          (None, h1) \<Rightarrow>
                            (Return False,
                             context'\<lparr>rerror := \<lparr>pointer = exception_marker, slength = 0\<rparr>\<rparr>,
                             h1)
                        | (Some result, h1) \<Rightarrow> (Return True, context', h1))))))"

definition translate_rawread_key :: "'p luxem_rawread_string_callback_t" where
  "translate_rawread_key = TRANSLATE_STRING_CALLBACK key"

definition translate_rawread_type :: "'p luxem_rawread_string_callback_t" where
  "translate_rawread_type = TRANSLATE_STRING_CALLBACK type"

definition translate_rawread_primitive :: "'p luxem_rawread_string_callback_t" where
  "translate_rawread_primitive = TRANSLATE_STRING_CALLBACK primitive"

definition Reader_callbacks :: "'p luxem_rawread_callbacks_t" where
  "Reader_callbacks =
     \<lparr>cb_object_begin = translate_rawread_object_begin,
      cb_object_end = translate_rawread_object_end,
      cb_array_begin = translate_rawread_array_begin,
      cb_array_end = translate_rawread_array_end,
      cb_key = translate_rawread_key,
      cb_type = translate_rawread_type,
      cb_primitive = translate_rawread_primitive\<rparr>"

definition Reader_new :: "'p \<Rightarrow> 'p Reader option" where
  "Reader_new p0 =
     (case luxem_rawread_construct p0 of
        None \<Rightarrow> None
      | Some c \<Rightarrow>
          Some \<lparr>rcontext = c, object_begin = None, object_end = None, array_begin = None,
                array_end = None, key = None, type = None, primitive = None,
                thread_state = None\<rparr>)"

text \<open>
  \<^verbatim>\<open>Reader_init\<close> parses seven required objects (format \<^verbatim>\<open>OOOOOOO\<close>); \<open>None\<close> is a
  failed parse.
\<close>

definition Reader_init ::
  "'p Reader \<Rightarrow> (pyobj \<times> pyobj \<times> pyobj \<times> pyobj \<times> pyobj \<times> pyobj \<times> pyobj) option \<Rightarrow> host \<Rightarrow>
     int \<times> 'p Reader \<times> host" where
  "Reader_init self named_args h =
     (case named_args of
        None \<Rightarrow> (- 1, self, PyErr_SetObject PyExc_TypeError None h)
      | Some (ob, oe, ab, ae, k, t, p) \<Rightarrow>
          (0, self\<lparr>object_begin := Some ob, object_end := Some oe, array_begin := Some ab,
                  array_end := Some ae, key := Some k, type := Some t, primitive := Some p\<rparr>,
           h))"

subsection \<open>Reporting an engine error\<close>

fun decimal :: "nat \<Rightarrow> string" where
  "decimal n =
     (if n < 10 then [char_of (48 + n)] else decimal (n div 10) @ [char_of (48 + n mod 10)])"

definition c_string :: "string \<Rightarrow> string" where
  "c_string s = takeWhile (\<lambda>c. c \<noteq> CHR 0x00) s"

definition format_context_error :: "'p luxem_rawread_context_t \<Rightarrow> host \<Rightarrow> unit outcome \<times> host" where
  "format_context_error context' h =
     (if pointer (luxem_rawread_get_error context') \<noteq> exception_marker then
        (if \<not> 0 < slength (luxem_rawread_get_error context') then (Abort, h)
         else
           (let error = luxem_rawread_get_error context';
                formatted_error =
                  c_string (chars_at (pointer error) (slength error)) @ '' [offset '' @
                  decimal (luxem_rawread_get_position context') @ '']'';
                formatted_error_size = int (length formatted_error)
            in if formatted_error_size < 0 then
                 (Return (),
                  PyErr_SetString PyExc_ValueError
                    ''Encountered an exception, then encountered an error while trying to format the exception.''
                    h)
               else (Return (), PyErr_SetString PyExc_ValueError (c_string formatted_error) h)))
      else if slength (luxem_rawread_get_error context') \<noteq> 0 then (Abort, h)
      else (Return (), h))"

definition PyEval_SaveThread :: "host \<Rightarrow> nat \<times> host" where
  "PyEval_SaveThread h = (1, h\<lparr>gil_released := True\<rparr>)"

definition PyEval_RestoreThread :: "nat \<Rightarrow> host \<Rightarrow> host" where
  "PyEval_RestoreThread ts h = h\<lparr>gil_released := False\<rparr>"

definition feed_unlock_gil :: "'p Reader \<Rightarrow> host \<Rightarrow> 'p Reader outcome \<times> host" where
  "feed_unlock_gil self h =
     (if thread_state self \<noteq> None then (Abort, h)
      else (case PyEval_SaveThread h of
              (ts, h1) \<Rightarrow> (Return (self\<lparr>thread_state := Some ts\<rparr>), h1)))"

definition feed_lock_gil :: "'p Reader \<Rightarrow> host \<Rightarrow> 'p Reader outcome \<times> host" where
  "feed_lock_gil self h =
     (case thread_state self of
        None \<Rightarrow> (Abort, h)
      | Some ts \<Rightarrow> (Return (self\<lparr>thread_state := None\<rparr>), PyEval_RestoreThread ts h))"

subsection \<open>Feeding\<close>

text \<open>
  The reading entry points of the engine, \<^verbatim>\<open>luxem_rawread_feed\<close> and
  \<^verbatim>\<open>luxem_rawread_feed_file\<close>, are declared in \<^verbatim>\<open>c/luxem_rawread.h\<close> and defined
  outside the sources; \<^verbatim>\<open>Reader_feed\<close> takes them as a record. In C the callback table
  and the user data sit inside the context; here they are passed beside it. The file
  entry point also takes the two hooks, which change the reader object.
\<close>

type_synonym 'p hook = "'p Reader \<Rightarrow> host \<Rightarrow> 'p Reader outcome \<times> host"

record 'p rawread =
  luxem_rawread_feed ::
    "'p luxem_rawread_callbacks_t \<Rightarrow> 'p Reader \<Rightarrow> 'p luxem_rawread_context_t \<Rightarrow>
       luxem_string_t \<Rightarrow> bool \<Rightarrow> host \<Rightarrow>
       (bool \<times> nat) outcome \<times> 'p luxem_rawread_context_t \<times> host"
  luxem_rawread_feed_file ::
    "'p luxem_rawread_callbacks_t \<Rightarrow> 'p Reader \<Rightarrow> 'p luxem_rawread_context_t \<Rightarrow>
       int option \<Rightarrow> 'p hook \<Rightarrow> 'p hook \<Rightarrow> host \<Rightarrow>
       bool outcome \<times> 'p luxem_rawread_context_t \<times> 'p Reader \<times> host"

definition Reader_feed ::
  "'p rawread \<Rightarrow> 'p Reader \<Rightarrow> (pyobj \<times> bool option) option \<Rightarrow> host \<Rightarrow>
     pyobj option outcome \<times> 'p Reader \<times> host" where
  "Reader_feed E self named_args h =
     (case named_args of
        None \<Rightarrow> (Return None, self, PyErr_SetObject PyExc_TypeError None h)
      | Some (data, finish_arg) \<Rightarrow>
          (let finish = (case finish_arg of None \<Rightarrow> True | Some b \<Rightarrow> b) in
           if WRAP_BYTES_CHECK h data then
             (case luxem_rawread_feed E Reader_callbacks self (rcontext self)
                     (WRAP_BYTES_TO h data) finish h of
                (Abort, c, h1) \<Rightarrow> (Abort, self\<lparr>rcontext := c\<rparr>, h1)
              | (Return (False, eaten), c, h1) \<Rightarrow>
                  (case format_context_error c h1 of
                     (Abort, h2) \<Rightarrow> (Abort, self\<lparr>rcontext := c\<rparr>, h2)
                   | (Return u, h2) \<Rightarrow> (Return None, self\<lparr>rcontext := c\<rparr>, h2))
              | (Return (True, eaten), c, h1) \<Rightarrow>
                  (Return (Some (PyLong (int eaten))), self\<lparr>rcontext := c\<rparr>, h1))
           else if WRAP_FILE_CHECK h data then
             (case WRAP_FILE_TO data ''r'' h of
                (file', h0) \<Rightarrow>
                  (case luxem_rawread_feed_file E Reader_callbacks self (rcontext self) file'
                          feed_unlock_gil feed_lock_gil h0 of
                     (Abort, c, s, h1) \<Rightarrow> (Abort, s\<lparr>rcontext := c\<rparr>, h1)
                   | (Return False, c, s, h1) \<Rightarrow>
                       (case format_context_error c h1 of
                          (Abort, h2) \<Rightarrow> (Abort, s\<lparr>rcontext := c\<rparr>, h2)
                        | (Return u, h2) \<Rightarrow> (Return None, s\<lparr>rcontext := c\<rparr>, h2))
                   | (Return True, c, s, h1) \<Rightarrow>
                       (Return (Some PyNone), s\<lparr>rcontext := c\<rparr>, h1)))
           else
             (Return None, self,
              PyErr_SetString PyExc_TypeError
                ''luxem.RawReader.feed requires a single bytes or binary file argument.'' h)))"

subsection \<open>The engine's delivery of events\<close>

datatype event =
    Object_begin
  | Object_end
  | Array_begin
  | Array_end
  | Key string
  | Type string
  | Primitive string

datatype item = Deliver event | Violation string nat

type_synonym 'p scanner = "'p \<Rightarrow> string \<Rightarrow> bool \<Rightarrow> item list \<times> nat \<times> 'p"

text \<open>
  Modelled from the spec: the body of \<^verbatim>\<open>luxem_rawread_feed\<close>, which is not part of the
  sources. The grammar of the format is neither in the sources nor in the specification,
  so the lexical analysis is an argument: from the parsing state, the chunk and the
  \<^verbatim>\<open>finish\<close> flag, \<open>scan\<close> gives what the engine meets in the chunk, in order (an
  event to deliver, or a grammar violation with its message and its offset in the chunk),
  the number of bytes it consumes and the next parsing state. What the specification
  (4.1, 5, 7) fixes is the delivery: events go to the registered callbacks in order; a
  callback that reports failure ends the call at once, with no further event and no new
  error; a violation ends the call with its message and the cumulative position; a call
  that ends well advances the position by the bytes consumed. A string reaches a callback
  as pointer and length, the pointer being null for the empty string.
\<close>

definition luxem_string :: "string \<Rightarrow> luxem_string_t" where
  "luxem_string s =
     (if s = [] then \<lparr>pointer = NULL, slength = 0\<rparr>
      else \<lparr>pointer = Chars s, slength = length s\<rparr>)"

fun fire ::
  "'p luxem_rawread_callbacks_t \<Rightarrow> event \<Rightarrow> 'p luxem_rawread_void_callback_t" where
  "fire cbs Object_begin c u h = cb_object_begin cbs c u h"
| "fire cbs Object_end c u h = cb_object_end cbs c u h"
| "fire cbs Array_begin c u h = cb_array_begin cbs c u h"
| "fire cbs Array_end c u h = cb_array_end cbs c u h"
| "fire cbs (Key s) c u h = cb_key cbs c u (luxem_string s) h"
| "fire cbs (Type s) c u h = cb_type cbs c u (luxem_string s) h"
| "fire cbs (Primitive s) c u h = cb_primitive cbs c u (luxem_string s) h"

fun deliver ::
  "'p luxem_rawread_callbacks_t \<Rightarrow> 'p Reader \<Rightarrow> item list \<Rightarrow> 'p luxem_rawread_context_t \<Rightarrow>
     host \<Rightarrow> bool outcome \<times> 'p luxem_rawread_context_t \<times> host" where
  "deliver cbs u [] c h = (Return True, c, h)"
| "deliver cbs u (Violation msg off # rest) c h =
     (Return False,
      c\<lparr>rerror := \<lparr>pointer = Chars msg, slength = length msg\<rparr>, position := position c + off\<rparr>,
      h)"
| "deliver cbs u (Deliver e # rest) c h =
     (case fire cbs e c u h of
        (Return True, c1, h1) \<Rightarrow> deliver cbs u rest c1 h1
      | (Return False, c1, h1) \<Rightarrow> (Return False, c1, h1)
      | (Abort, c1, h1) \<Rightarrow> (Abort, c1, h1))"

definition engine_feed ::
  "'p scanner \<Rightarrow> 'p luxem_rawread_callbacks_t \<Rightarrow> 'p Reader \<Rightarrow> 'p luxem_rawread_context_t \<Rightarrow>
     luxem_string_t \<Rightarrow> bool \<Rightarrow> host \<Rightarrow>
     (bool \<times> nat) outcome \<times> 'p luxem_rawread_context_t \<times> host" where
  "engine_feed scan cbs u c data finish h =
     (case scan (pstate c) (chars_at (pointer data) (slength data)) finish of
        (items, eaten, p') \<Rightarrow>
          (case deliver cbs u items c h of
             (Return True, c1, h1) \<Rightarrow>
               (Return (True, eaten), c1\<lparr>position := position c1 + eaten, pstate := p'\<rparr>, h1)
           | (Return False, c1, h1) \<Rightarrow> (Return (False, 0), c1, h1)
           | (Abort, c1, h1) \<Rightarrow> (Abort, c1, h1)))"

text \<open>
  The Python callable that the binding calls for an event, and the argument tuple it
  builds for it (none when the payload cannot be made a string object).
\<close>

fun listener :: "'p Reader \<Rightarrow> event \<Rightarrow> pyobj option" where
  "listener r Object_begin = object_begin r"
| "listener r Object_end = object_end r"
| "listener r Array_begin = array_begin r"
| "listener r Array_end = array_end r"
| "listener r (Key s) = key r"
| "listener r (Type s) = type r"
| "listener r (Primitive s) = primitive r"

fun payload :: "event \<Rightarrow> string option" where
  "payload (Key s) = Some s"
| "payload (Type s) = Some s"
| "payload (Primitive s) = Some s"
| "payload e = None"

definition arguments_of :: "host \<Rightarrow> event \<Rightarrow> pyobj option" where
  "arguments_of h e =
     (case payload e of
        None \<Rightarrow> Some (PyTuple [])
      | Some s \<Rightarrow>
          if 3 \<le> PY_MAJOR_VERSION h
          then (if utf8_valid s then Some (PyTuple [PyUnicode s]) else None)
          else Some (PyTuple [PyBytes s]))"

section \<open>The ascii16 transcoder\<close>

text \<open>
  Modelled from the spec: \<^verbatim>\<open>luxem_to_ascii16\<close> and \<^verbatim>\<open>luxem_from_ascii16\<close>, which
  \<^verbatim>\<open>_luxem.c\<close> calls through a function pointer and which are defined outside the
  sources. The specification (4.3) makes the encoder a total, length-doubling mapping of
  bytes to hexadecimal digits and the decoder its exact inverse, failing with a message
  and an offset when the input has odd length or holds a character outside the
  hexadecimal alphabet. The specification does not fix the order of the two digits, the
  case of the letters or the text of the messages: here the high half of a byte comes
  first, letters are lower case, and the C interface (a result, or an error string)
  carries the message.
\<close>

definition hex_digit :: "nat \<Rightarrow> char" where
  "hex_digit d = char_of (if d < 10 then 48 + d else 87 + d)"

definition hex_value :: "char \<Rightarrow> nat option" where
  "hex_value c =
     (let n = of_char c :: nat in
      if 48 \<le> n \<and> n \<le> 57 then Some (n - 48)
      else if 97 \<le> n \<and> n \<le> 102 then Some (n - 87)
      else None)"

fun encode :: "string \<Rightarrow> string" where
  "encode [] = []"
| "encode (b # bs) =
     hex_digit (of_char b div 16) # hex_digit (of_char b mod 16) # encode bs"

datatype transcoder_error = TranscoderError string nat

fun decode_at :: "nat \<Rightarrow> string \<Rightarrow> transcoder_error + string" where
  "decode_at i [] = Inr []"
| "decode_at i [a] =
     (case hex_value a of
        None \<Rightarrow> Inl (TranscoderError ''invalid ascii16 character'' i)
      | Some x \<Rightarrow> Inl (TranscoderError ''ascii16 input has odd length'' i))"
| "decode_at i (a # b # rest) =
     (case hex_value a of
        None \<Rightarrow> Inl (TranscoderError ''invalid ascii16 character'' i)
      | Some x \<Rightarrow>
          (case hex_value b of
             None \<Rightarrow> Inl (TranscoderError ''invalid ascii16 character'' (i + 1))
           | Some y \<Rightarrow>
               (case decode_at (i + 2) rest of
                  Inl e \<Rightarrow> Inl e
                | Inr out' \<Rightarrow> Inr (char_of (16 * x + y) # out'))))"

definition decode :: "string \<Rightarrow> transcoder_error + string" where
  "decode s = decode_at 0 s"

definition luxem_to_ascii16 :: "luxem_string_t \<Rightarrow> luxem_string_t + luxem_string_t" where
  "luxem_to_ascii16 data =
     (let out' = encode (chars_at (pointer data) (slength data))
      in Inr \<lparr>pointer = Chars out', slength = length out'\<rparr>)"

definition luxem_from_ascii16 :: "luxem_string_t \<Rightarrow> luxem_string_t + luxem_string_t" where
  "luxem_from_ascii16 data =
     (case decode (chars_at (pointer data) (slength data)) of
        Inl (TranscoderError message offset) \<Rightarrow>
          Inl \<lparr>pointer = Chars message, slength = length message\<rparr>
      | Inr out' \<Rightarrow> Inr \<lparr>pointer = Chars out', slength = length out'\<rparr>)"

text \<open>
  The binding, from \<^verbatim>\<open>_luxem.c\<close>: one function for both directions, which takes the
  engine function as an argument.
\<close>

definition translate_to_from_ascii16 ::
  "pyobj list \<Rightarrow> (luxem_string_t \<Rightarrow> luxem_string_t + luxem_string_t) \<Rightarrow> host \<Rightarrow>
     pyobj option \<times> host" where
  "translate_to_from_ascii16 positional_args function h =
     (case PyArg_ParseTuple_O positional_args h of
        (None, h0) \<Rightarrow> (None, h0)
      | (Some argument, h0) \<Rightarrow>
          if WRAP_STRING_CHECK h0 argument then
            (case WRAP_STRING_TO h0 argument of
               (string', hs) \<Rightarrow>
                 (case function string' of
                    Inl error \<Rightarrow>
                      (case WRAP_STRING_FROM (pointer error) (slength error) hs of
                         (v, h1) \<Rightarrow> (None, PyErr_SetObject PyExc_ValueError v h1))
                  | Inr out' \<Rightarrow> WRAP_STRING_FROM (pointer out') (slength out') hs))
          else (None, PyErr_SetString PyExc_TypeError ''A single string argument is required.'' h0))"

definition translate_to_ascii16 :: "pyobj list \<Rightarrow> host \<Rightarrow> pyobj option \<times> host" where
  "translate_to_ascii16 positional_args h =
     translate_to_from_ascii16 positional_args luxem_to_ascii16 h"

definition translate_from_ascii16 :: "pyobj list \<Rightarrow> host \<Rightarrow> pyobj option \<times> host" where
  "translate_from_ascii16 positional_args h =
     translate_to_from_ascii16 positional_args luxem_from_ascii16 h"

text \<open>
  The bytes of a string object, and the objects that are held by their bytes: a text
  string is well formed when it has a UTF-8 encoding and \<open>PyUnicode\<close> holds it; a text
  string with a lone surrogate has none.
\<close>

definition string_of :: "pyobj \<Rightarrow> string" where
  "string_of o' = (case o' of PyUnicode s \<Rightarrow> s | PyBytes s \<Rightarrow> s | _ \<Rightarrow> [])"

definition well_formed :: "pyobj \<Rightarrow> bool" where
  "well_formed o' =
     (case o' of PyUnicode s \<Rightarrow> utf8_valid s | PyLoneSurrogate cps \<Rightarrow> False | _ \<Rightarrow> True)"

definition hex_alphabet :: "char set" where
  "hex_alphabet = set ''0123456789abcdef''"

section \<open>Concrete inputs\<close>

text \<open>
  A host with no pending exception whose callables all return \<open>None\<close>, an engine
  stand-in whose writing entry points always succeed (the string ones append their
  argument to a buffer sink), and a writer as \<^verbatim>\<open>Writer_new\<close> and \<^verbatim>\<open>Writer_init\<close>
  leave it when no target is given. They are the inputs at which the theorems below are
  instantiated.
\<close>

definition host0 :: host where
  "host0 = \<lparr>PY_MAJOR_VERSION = 3, curexc = None, calls = [],
            code = (\<lambda>cs f args. Inr PyNone), fds = [0, 1, 2], gil_released = False,
            uninitialised = 0\<rparr>"

definition context0 :: luxem_rawwrite_context_t where
  "context0 = \<lparr>werror = \<lparr>pointer = NULL, slength = 0\<rparr>, out = Buffer_out [], pretty = None\<rparr>"

definition writer0 :: Writer where
  "writer0 = \<lparr>ob_refcnt = 1, wcontext = context0, target = None, wfile = None\<rparr>"

definition append_out :: string_method where
  "append_out c s h =
     (case out c of
        Buffer_out b \<Rightarrow> (True, c\<lparr>out := Buffer_out (b @ chars_at (pointer s) (slength s))\<rparr>, h)
      | _ \<Rightarrow> (True, c, h))"

definition rawwrite0 :: rawwrite where
  "rawwrite0 =
     \<lparr>luxem_rawwrite_object_begin = (\<lambda>c h. (True, c, h)),
      luxem_rawwrite_object_end = (\<lambda>c h. (True, c, h)),
      luxem_rawwrite_array_begin = (\<lambda>c h. (True, c, h)),
      luxem_rawwrite_array_end = (\<lambda>c h. (True, c, h)),
      luxem_rawwrite_key = append_out,
      luxem_rawwrite_type = append_out,
      luxem_rawwrite_primitive = append_out\<rparr>"

definition no_target :: Writer_args where
  "no_target = \<lparr>arg_target = None, arg_pretty = None, arg_use_spaces = None,
                  arg_indent_multiple = None\<rparr>"

definition callback_target :: Writer_args where
  "callback_target = no_target\<lparr>arg_target := Some (PyCallable 3)\<rparr>"

definition stream_target :: Writer_args where
  "stream_target = no_target\<lparr>arg_target := Some (PyLong 1)\<rparr>"

text \<open>
  A reader with seven listeners, a scanner stand-in that finds the events of an object
  with one key and one primitive in whatever chunk it is given, a host in which the
  \<^verbatim>\<open>key\<close> listener raises, and a stand-in for the engine's file entry point.
\<close>

definition reader0 :: "unit Reader" where
  "reader0 =
     \<lparr>rcontext = \<lparr>rerror = \<lparr>pointer = NULL, slength = 0\<rparr>, position = 0, pstate = ()\<rparr>,
      object_begin = Some (PyCallable 1), object_end = Some (PyCallable 2),
      array_begin = Some (PyCallable 3), array_end = Some (PyCallable 4),
      key = Some (PyCallable 5), type = Some (PyCallable 6), primitive = Some (PyCallable 7),
      thread_state = None\<rparr>"

definition scan0 :: "unit scanner" where
  "scan0 p s fin =
     ([Deliver Object_begin, Deliver (Key ''a''), Deliver (Primitive ''1''), Deliver Object_end],
      length s, p)"

definition host_key_raises :: host where
  "host_key_raises =
     host0\<lparr>code := (\<lambda>cs f args.
        if f = PyCallable 5 then Inl (PyErr (PyExc_Other 0) None) else Inr PyNone)\<rparr>"

definition feed_file0 ::
  "unit luxem_rawread_callbacks_t \<Rightarrow> unit Reader \<Rightarrow> unit luxem_rawread_context_t \<Rightarrow>
     int option \<Rightarrow> unit hook \<Rightarrow> unit hook \<Rightarrow> host \<Rightarrow>
     bool outcome \<times> unit luxem_rawread_context_t \<times> unit Reader \<times> host" where
  "feed_file0 cbs u c f suspend resume h = (Return True, c, u, h)"

section \<open>Properties of the writer's call surface\<close>

lemma translate_void_method_result:
  "fst (translate_void_method self w method h) = Return (Some r) \<longleftrightarrow>
     fst (method (wcontext w) h) \<and> r = PyRef self"
  by (auto simp: translate_void_method_def raise_rawwrite_error_def Let_def
           split: prod.splits bool.splits if_splits)

lemma translate_string_method_result:
  "fst (translate_string_method self w args method badargs h) = Return (Some r) \<longleftrightarrow>
     (\<exists>a. args = [a] \<and> WRAP_STRING_CHECK h a \<and>
          fst (method (wcontext w) (fst (WRAP_STRING_TO h a)) (snd (WRAP_STRING_TO h a))) \<and>
          r = PyRef self)"
  by (auto simp: translate_string_method_def raise_rawwrite_error_def Let_def
                 PyArg_ParseTuple_O_def
           split: prod.splits bool.splits if_splits list.splits option.splits)

lemma translate_string_method_not_string:
  "\<not> WRAP_STRING_CHECK h a \<Longrightarrow>
   translate_string_method self w [a] method badargs h =
     (Return None, w, PyErr_SetString PyExc_TypeError badargs h)"
  by (simp add: translate_string_method_def PyArg_ParseTuple_O_def)

text \<open>
  Claim C9. A call of \<^verbatim>\<open>object_begin\<close>, \<^verbatim>\<open>object_end\<close>, \<^verbatim>\<open>array_begin\<close>,
  \<^verbatim>\<open>array_end\<close>, \<^verbatim>\<open>key\<close>, \<^verbatim>\<open>type\<close> or \<^verbatim>\<open>primitive\<close> on a writer returns an
  object exactly when the engine's entry point reports success (for the three string
  calls: when, in addition, the single argument is a string), and the object it returns
  is then the writer itself, whatever the engine is.
\<close>

theorem writer_calls_return_self:
  "(fst (Writer_object_begin E self w h) = Return (Some r) \<longleftrightarrow>
      fst (luxem_rawwrite_object_begin E (wcontext w) h) \<and> r = PyRef self) \<and>
   (fst (Writer_object_end E self w h) = Return (Some r) \<longleftrightarrow>
      fst (luxem_rawwrite_object_end E (wcontext w) h) \<and> r = PyRef self) \<and>
   (fst (Writer_array_begin E self w h) = Return (Some r) \<longleftrightarrow>
      fst (luxem_rawwrite_array_begin E (wcontext w) h) \<and> r = PyRef self) \<and>
   (fst (Writer_array_end E self w h) = Return (Some r) \<longleftrightarrow>
      fst (luxem_rawwrite_array_end E (wcontext w) h) \<and> r = PyRef self) \<and>
   (fst (Writer_key E self w args h) = Return (Some r) \<longleftrightarrow>
      (\<exists>a. args = [a] \<and> WRAP_STRING_CHECK h a \<and>
           fst (luxem_rawwrite_key E (wcontext w)
                  (fst (WRAP_STRING_TO h a)) (snd (WRAP_STRING_TO h a))) \<and>
           r = PyRef self)) \<and>
   (fst (Writer_type E self w args h) = Return (Some r) \<longleftrightarrow>
      (\<exists>a. args = [a] \<and> WRAP_STRING_CHECK h a \<and>
           fst (luxem_rawwrite_type E (wcontext w)
                  (fst (WRAP_STRING_TO h a)) (snd (WRAP_STRING_TO h a))) \<and>
           r = PyRef self)) \<and>
   (fst (Writer_primitive E self w args h) = Return (Some r) \<longleftrightarrow>
      (\<exists>a. args = [a] \<and> WRAP_STRING_CHECK h a \<and>
           fst (luxem_rawwrite_primitive E (wcontext w)
                  (fst (WRAP_STRING_TO h a)) (snd (WRAP_STRING_TO h a))) \<and>
           r = PyRef self))"
  unfolding Writer_object_begin_def Writer_object_end_def Writer_array_begin_def
    Writer_array_end_def Writer_key_def Writer_type_def Writer_primitive_def
  by (simp only: translate_void_method_result translate_string_method_result simp_thms)

theorem writer_calls_return_self_witness:
  "fst (Writer_object_begin rawwrite0 7 writer0 host0) = Return (Some (PyRef 7)) \<and>
   fst (Writer_key rawwrite0 7 writer0 [PyUnicode ''a''] host0) = Return (Some (PyRef 7)) \<and>
   fst (Writer_key rawwrite0 7 writer0 [PyLong 1] host0) \<noteq> Return (Some (PyRef 7))"
  using writer_calls_return_self [of rawwrite0 7 writer0 host0 "PyRef 7" "[PyUnicode ''a'']"]
    writer_calls_return_self [of rawwrite0 7 writer0 host0 "PyRef 7" "[PyLong 1]"]
  by (simp add: rawwrite0_def writer0_def context0_def host0_def append_out_def
        WRAP_STRING_CHECK_def)

text \<open>
  Claim C10. When the single argument of \<^verbatim>\<open>key\<close>, \<^verbatim>\<open>type\<close> or \<^verbatim>\<open>primitive\<close> is
  not a string, the call returns \<^verbatim>\<open>NULL\<close> with a \<^verbatim>\<open>TypeError\<close> carrying the method's
  own message pending; the writer (its engine context and sink included) is the one
  passed in, the host differs only in the pending exception, and the result does not
  depend on the engine, which is never entered.
\<close>

theorem writer_string_call_rejects_non_string:
  "\<not> WRAP_STRING_CHECK h a \<Longrightarrow>
   Writer_key E self w [a] h =
     (Return None, w,
      h\<lparr>curexc := Some (PyErr PyExc_TypeError
         (Some (py_str h ''luxem.RawWriter.key requires a single string argument.'')))\<rparr>) \<and>
   Writer_type E self w [a] h =
     (Return None, w,
      h\<lparr>curexc := Some (PyErr PyExc_TypeError
         (Some (py_str h ''luxem.RawWriter.type requires a single string argument.'')))\<rparr>) \<and>
   Writer_primitive E self w [a] h =
     (Return None, w,
      h\<lparr>curexc := Some (PyErr PyExc_TypeError
         (Some (py_str h ''luxem.RawWriter.primitive requires a single string argument.'')))\<rparr>)"
  by (simp add: Writer_key_def Writer_type_def Writer_primitive_def
        translate_string_method_not_string PyErr_SetString_def PyErr_SetObject_def)

theorem writer_string_call_rejects_non_string_witness:
  "\<not> WRAP_STRING_CHECK host0 (PyBytes ''k'') \<and>
   Writer_key rawwrite0 7 writer0 [PyBytes ''k''] host0 =
     (Return None, writer0,
      host0\<lparr>curexc := Some (PyErr PyExc_TypeError
         (Some (PyUnicode ''luxem.RawWriter.key requires a single string argument.'')))\<rparr>)"
proof -
  have ns: "\<not> WRAP_STRING_CHECK host0 (PyBytes ''k'')"
    by (simp add: WRAP_STRING_CHECK_def host0_def)
  have "py_str host0 ''luxem.RawWriter.key requires a single string argument.'' =
        PyUnicode ''luxem.RawWriter.key requires a single string argument.''"
    by (simp add: py_str_def host0_def)
  with writer_string_call_rejects_non_string [OF ns, of rawwrite0 7 writer0] ns
  show ?thesis by simp
qed

section \<open>\<^verbatim>\<open>dump\<close> and the sink chosen at construction\<close>

lemma buffer_accumulate_runs:
  "out c = Buffer_out b \<Longrightarrow> out (fold buffer_accumulate runs c) = Buffer_out (b @ concat runs)"
  by (induction runs arbitrary: c b) (simp_all add: buffer_accumulate_def)

lemma constructed_target:
  assumes "constructed a h0 = Some w"
  shows "target w = arg_target a"
    and "arg_target a = None \<Longrightarrow> out (wcontext w) = Buffer_out []"
  using assms
  by (auto simp: constructed_def Writer_new_def Writer_init_def Let_def
        luxem_rawwrite_construct_def luxem_rawwrite_set_buffer_out_def
        luxem_rawwrite_set_pretty_def
      split: option.splits prod.splits if_splits)

lemma Writer_dump_buffer:
  "target w = None \<Longrightarrow> out (wcontext w) = Buffer_out b \<Longrightarrow>
   Writer_dump w h = (Return (Some (PyBytes b)), w, h)"
  by (simp add: Writer_dump_def luxem_rawwrite_buffer_render_def WRAP_BYTES_FROM_def
        chars_at_def)

lemma Writer_dump_target:
  "target w = Some t \<Longrightarrow>
   Writer_dump w h =
     (Return None, w,
      h\<lparr>curexc := Some (PyErr PyExc_TypeError (Some (py_str h
        ''luxem.RawWriter.dump can only be used if not using a custom serialize callback for serializing to file.'')))\<rparr>)"
  by (simp add: Writer_dump_def PyErr_SetString_def PyErr_SetObject_def)

text \<open>
  Claim C6. Take a writer that \<^verbatim>\<open>Writer_new\<close> and \<^verbatim>\<open>Writer_init\<close> have constructed.
  If no target was given, then after the engine has delivered any runs of bytes to the
  sink, and whatever else it did to its context, \<^verbatim>\<open>dump\<close> returns a bytes object holding
  exactly those runs in order, and leaves writer and host as they are. If a target was
  given (a stream or a callback), \<^verbatim>\<open>dump\<close> returns \<^verbatim>\<open>NULL\<close> with a \<^verbatim>\<open>TypeError\<close>
  pending, whatever the state of the engine context.
\<close>

theorem dump_succeeds_iff_buffer_sink:
  assumes "constructed a h0 = Some w"
  shows "(arg_target a = None \<longrightarrow>
            (\<forall>runs c h. out c = out (fold buffer_accumulate runs (wcontext w)) \<longrightarrow>
               Writer_dump (w\<lparr>wcontext := c\<rparr>) h =
                 (Return (Some (PyBytes (concat runs))), w\<lparr>wcontext := c\<rparr>, h))) \<and>
         (arg_target a \<noteq> None \<longrightarrow>
            (\<forall>c h. Writer_dump (w\<lparr>wcontext := c\<rparr>) h =
               (Return None, w\<lparr>wcontext := c\<rparr>,
                h\<lparr>curexc := Some (PyErr PyExc_TypeError (Some (py_str h
                  ''luxem.RawWriter.dump can only be used if not using a custom serialize callback for serializing to file.'')))\<rparr>)))"
proof (intro conjI impI allI)
  fix runs and c :: luxem_rawwrite_context_t and h :: host
  assume none: "arg_target a = None"
    and c: "out c = out (fold buffer_accumulate runs (wcontext w))"
  from constructed_target(2) [OF assms none]
  have "out (fold buffer_accumulate runs (wcontext w)) = Buffer_out ([] @ concat runs)"
    by (rule buffer_accumulate_runs)
  with c have "out (wcontext (w\<lparr>wcontext := c\<rparr>)) = Buffer_out (concat runs)" by simp
  moreover have "target (w\<lparr>wcontext := c\<rparr>) = None"
    using constructed_target(1) [OF assms] none by simp
  ultimately show "Writer_dump (w\<lparr>wcontext := c\<rparr>) h =
      (Return (Some (PyBytes (concat runs))), w\<lparr>wcontext := c\<rparr>, h)"
    by (rule Writer_dump_buffer [rotated])
next
  fix c :: luxem_rawwrite_context_t and h :: host
  assume "arg_target a \<noteq> None"
  then obtain t where "target (w\<lparr>wcontext := c\<rparr>) = Some t"
    using constructed_target(1) [OF assms] by auto
  then show "Writer_dump (w\<lparr>wcontext := c\<rparr>) h =
      (Return None, w\<lparr>wcontext := c\<rparr>,
       h\<lparr>curexc := Some (PyErr PyExc_TypeError (Some (py_str h
         ''luxem.RawWriter.dump can only be used if not using a custom serialize callback for serializing to file.'')))\<rparr>)"
    by (rule Writer_dump_target)
qed

theorem dump_succeeds_iff_buffer_sink_witness:
  "constructed no_target host0 = Some writer0 \<and>
   Writer_dump (writer0\<lparr>wcontext := fold buffer_accumulate [''{'', ''a:1,'', ''}''] context0\<rparr>)
       host0 =
     (Return (Some (PyBytes ''{a:1,}'')),
      writer0\<lparr>wcontext := fold buffer_accumulate [''{'', ''a:1,'', ''}''] context0\<rparr>, host0) \<and>
   constructed callback_target host0 =
     Some (writer0\<lparr>wcontext := context0\<lparr>out := Callback_out\<rparr>, target := Some (PyCallable 3)\<rparr>) \<and>
   fst (Writer_dump
          (writer0\<lparr>wcontext := context0\<lparr>out := Callback_out\<rparr>, target := Some (PyCallable 3)\<rparr>)
          host0) = Return None \<and>
   constructed stream_target host0 =
     Some (writer0\<lparr>wcontext := context0\<lparr>out := File_out 1\<rparr>, target := Some (PyLong 1),
             wfile := Some 1\<rparr>) \<and>
   fst (Writer_dump
          (writer0\<lparr>wcontext := context0\<lparr>out := File_out 1\<rparr>, target := Some (PyLong 1),
             wfile := Some 1\<rparr>)
          host0) = Return None"
proof -
  have b: "constructed no_target host0 = Some writer0"
    by (simp add: constructed_def Writer_new_def Writer_init_def no_target_def writer0_def
          context0_def luxem_rawwrite_construct_def luxem_rawwrite_set_buffer_out_def)
  have cb: "constructed callback_target host0 =
      Some (writer0\<lparr>wcontext := context0\<lparr>out := Callback_out\<rparr>, target := Some (PyCallable 3)\<rparr>)"
    by (simp add: constructed_def Writer_new_def Writer_init_def no_target_def writer0_def
          callback_target_def context0_def luxem_rawwrite_construct_def host0_def
          luxem_rawwrite_set_write_callback_def WRAP_FILE_CHECK_def compat_file_check_def)
  have st: "constructed stream_target host0 =
      Some (writer0\<lparr>wcontext := context0\<lparr>out := File_out 1\<rparr>, target := Some (PyLong 1),
              wfile := Some 1\<rparr>)"
    by (simp add: constructed_def Writer_new_def Writer_init_def no_target_def writer0_def
          stream_target_def context0_def luxem_rawwrite_construct_def host0_def
          luxem_rawwrite_set_file_out_def WRAP_FILE_CHECK_def compat_file_check_def
          WRAP_FILE_TO_def compat_file_file_def PyObject_AsFileDescriptor_def fdopen_def)
  have nb: "arg_target no_target = None" by (simp add: no_target_def)
  have ncb: "arg_target callback_target \<noteq> None" by (simp add: callback_target_def)
  have nst: "arg_target stream_target \<noteq> None" by (simp add: stream_target_def)
  have w0: "wcontext writer0 = context0" by (simp add: writer0_def)
  have 1: "Writer_dump
        (writer0\<lparr>wcontext := fold buffer_accumulate [''{'', ''a:1,'', ''}''] context0\<rparr>) host0 =
      (Return (Some (PyBytes ''{a:1,}'')),
       writer0\<lparr>wcontext := fold buffer_accumulate [''{'', ''a:1,'', ''}''] context0\<rparr>, host0)"
    using dump_succeeds_iff_buffer_sink [OF b, THEN conjunct1, rule_format, OF nb,
        where runs = "[''{'', ''a:1,'', ''}'']"
          and c = "fold buffer_accumulate [''{'', ''a:1,'', ''}''] context0" and h = host0]
    by (simp add: w0)
  have 2: "fst (Writer_dump
        (writer0\<lparr>wcontext := context0\<lparr>out := Callback_out\<rparr>, target := Some (PyCallable 3)\<rparr>)
        host0) = Return None"
    using dump_succeeds_iff_buffer_sink [OF cb, THEN conjunct2, rule_format, OF ncb,
        where c = "context0\<lparr>out := Callback_out\<rparr>" and h = host0]
    by (simp add: writer0_def)
  have 3: "fst (Writer_dump
        (writer0\<lparr>wcontext := context0\<lparr>out := File_out 1\<rparr>, target := Some (PyLong 1),
           wfile := Some 1\<rparr>) host0) = Return None"
    using dump_succeeds_iff_buffer_sink [OF st, THEN conjunct2, rule_format, OF nst,
        where c = "context0\<lparr>out := File_out 1\<rparr>" and h = host0]
    by (simp add: writer0_def)
  from b cb st 1 2 3 show ?thesis by simp
qed

section \<open>A listener that fails\<close>

lemma fire_fails:
  assumes "listener r e = Some f" and "arguments_of h e = Some args"
    and "code h (calls h) f args = Inl x"
  shows "fire Reader_callbacks e c r h =
     (Return False, c\<lparr>rerror := \<lparr>pointer = exception_marker, slength = 0\<rparr>\<rparr>,
      h\<lparr>curexc := Some x, calls := calls h @ [(f, args)]\<rparr>)"
  using assms
  by (cases e)
     (auto simp: Reader_callbacks_def translate_rawread_object_begin_def
        translate_rawread_object_end_def translate_rawread_array_begin_def
        translate_rawread_array_end_def translate_rawread_key_def translate_rawread_type_def
        translate_rawread_primitive_def TRANSLATE_VOID_CALLBACK_def
        TRANSLATE_STRING_CALLBACK_def Py_BuildValue0_def Py_BuildValue1_def
        PyEval_CallObject_def arguments_of_def WRAP_STRING_FROM_def luxem_string_def
        chars_at_def Let_def
      split: if_splits)

lemma deliver_append:
  "deliver cbs u (pre @ rest) c h =
     (case deliver cbs u pre c h of
        (Return True, c1, h1) \<Rightarrow> deliver cbs u rest c1 h1
      | (Return False, c1, h1) \<Rightarrow> (Return False, c1, h1)
      | (Abort, c1, h1) \<Rightarrow> (Abort, c1, h1))"
proof (induction pre arbitrary: c h)
  case Nil
  show ?case by simp
next
  case (Cons i pre)
  show ?case
    by (cases i) (auto simp: Cons.IH split: prod.splits outcome.splits bool.splits)
qed

lemma format_context_error_marker:
  "pointer (rerror c) = exception_marker \<Longrightarrow> slength (rerror c) = 0 \<Longrightarrow>
   format_context_error c h = (Return (), h)"
  by (simp add: format_context_error_def luxem_rawread_get_error_def)

text \<open>
  Claim C2. A chunk of bytes is fed to a reader. The engine meets the items
  \<open>pre\<close>, then the event \<open>e\<close>, then \<open>post\<close>; the items of \<open>pre\<close> are delivered and
  accepted, and the Python listener registered for \<open>e\<close> raises the exception \<open>x\<close>. Then
  \<^verbatim>\<open>feed\<close> returns \<^verbatim>\<open>NULL\<close>; the pending exception is \<open>x\<close> itself, not a
  \<^verbatim>\<open>ValueError\<close> built from an engine message; the call that raised is the last call
  of a listener, so nothing of \<open>post\<close> is delivered; and the engine's error string is the
  exception marker with length 0.
\<close>

theorem listener_failure_aborts_feed:
  assumes bytes: "WRAP_BYTES_CHECK h data"
    and scan: "scan (pstate (rcontext r))
                 (chars_at (pointer (WRAP_BYTES_TO h data)) (slength (WRAP_BYTES_TO h data)))
                 (case fin of None \<Rightarrow> True | Some b \<Rightarrow> b) =
               (pre @ Deliver e # post, eaten, p')"
    and pre: "deliver Reader_callbacks r pre (rcontext r) h = (Return True, c1, h1)"
    and callee: "listener r e = Some f"
    and args: "arguments_of h1 e = Some args"
    and fails: "code h1 (calls h1) f args = Inl x"
  shows "Reader_feed \<lparr>luxem_rawread_feed = engine_feed scan, luxem_rawread_feed_file = F\<rparr>
           r (Some (data, fin)) h =
         (Return None,
          r\<lparr>rcontext := c1\<lparr>rerror := \<lparr>pointer = exception_marker, slength = 0\<rparr>\<rparr>\<rparr>,
          h1\<lparr>curexc := Some x, calls := calls h1 @ [(f, args)]\<rparr>)"
proof -
  have d: "deliver Reader_callbacks r (pre @ Deliver e # post) (rcontext r) h =
      (Return False, c1\<lparr>rerror := \<lparr>pointer = exception_marker, slength = 0\<rparr>\<rparr>,
       h1\<lparr>curexc := Some x, calls := calls h1 @ [(f, args)]\<rparr>)"
    by (simp add: deliver_append pre fire_fails [OF callee args fails])
  have e: "engine_feed scan Reader_callbacks r (rcontext r) (WRAP_BYTES_TO h data)
        (case fin of None \<Rightarrow> True | Some b \<Rightarrow> b) h =
      (Return (False, 0), c1\<lparr>rerror := \<lparr>pointer = exception_marker, slength = 0\<rparr>\<rparr>,
       h1\<lparr>curexc := Some x, calls := calls h1 @ [(f, args)]\<rparr>)"
    by (simp add: engine_feed_def scan d)
  show ?thesis
    by (simp add: Reader_feed_def bytes e format_context_error_marker)
qed


theorem listener_failure_aborts_feed_witness:
  "Reader_feed \<lparr>luxem_rawread_feed = engine_feed scan0, luxem_rawread_feed_file = feed_file0\<rparr>
     reader0 (Some (PyBytes ''{a:1}'', None)) host_key_raises =
   (Return None,
    reader0\<lparr>rcontext := rcontext reader0
              \<lparr>rerror := \<lparr>pointer = exception_marker, slength = 0\<rparr>\<rparr>\<rparr>,
    host_key_raises
      \<lparr>curexc := Some (PyErr (PyExc_Other 0) None),
       calls := [(PyCallable 1, PyTuple []), (PyCallable 5, PyTuple [PyUnicode ''a''])]\<rparr>)"
proof -
  let ?h1 = "host_key_raises\<lparr>calls := [(PyCallable 1, PyTuple [])]\<rparr>"
  have 1: "WRAP_BYTES_CHECK host_key_raises (PyBytes ''{a:1}'')"
    by (simp add: WRAP_BYTES_CHECK_def)
  have 2: "scan0 (pstate (rcontext reader0))
       (chars_at (pointer (WRAP_BYTES_TO host_key_raises (PyBytes ''{a:1}'')))
          (slength (WRAP_BYTES_TO host_key_raises (PyBytes ''{a:1}''))))
       (case None of None \<Rightarrow> True | Some b \<Rightarrow> b) =
     ([Deliver Object_begin] @ Deliver (Key ''a'') # [Deliver (Primitive ''1''), Deliver Object_end],
      5, ())"
    by (simp add: scan0_def WRAP_BYTES_TO_def chars_at_def)
  have 3: "deliver Reader_callbacks reader0 [Deliver Object_begin] (rcontext reader0)
       host_key_raises = (Return True, rcontext reader0, ?h1)"
    by (simp add: Reader_callbacks_def translate_rawread_object_begin_def
          TRANSLATE_VOID_CALLBACK_def Py_BuildValue0_def PyEval_CallObject_def reader0_def
          host_key_raises_def host0_def)
  have 4: "listener reader0 (Key ''a'') = Some (PyCallable 5)"
    by (simp add: reader0_def)
  have 5: "arguments_of ?h1 (Key ''a'') = Some (PyTuple [PyUnicode ''a''])"
    by (simp add: arguments_of_def host_key_raises_def host0_def utf8_valid_def)
  have 6: "code ?h1 (calls ?h1) (PyCallable 5) (PyTuple [PyUnicode ''a'']) =
      Inl (PyErr (PyExc_Other 0) None)"
    by (simp add: host_key_raises_def)
  show ?thesis
    using listener_failure_aborts_feed
      [where scan = scan0 and h = host_key_raises and data = "PyBytes ''{a:1}''"
         and r = reader0 and fin = None and pre = "[Deliver Object_begin]"
         and e = "Key ''a''" and post = "[Deliver (Primitive ''1''), Deliver Object_end]"
         and eaten = 5 and p' = "()" and F = feed_file0, OF 1 2 3 4 5 6]
    by simp
qed

section \<open>The transcoder\<close>

lemma hex_value_digit: "d < 16 \<Longrightarrow> hex_value (hex_digit d) = Some d"
  by (auto simp: hex_value_def hex_digit_def Let_def)

lemma high_half: "(of_char b :: nat) div 16 < 16"
  by (rule less_mult_imp_div_less) simp

lemma byte_split: "char_of (16 * (of_char b div 16) + (of_char b mod 16 :: nat)) = b"
  by simp

lemma decode_at_encode: "decode_at i (encode bs) = Inr bs"
  by (induction bs arbitrary: i) (simp_all add: hex_value_digit high_half)

lemma length_encode: "length (encode bs) = 2 * length bs"
  by (induction bs) simp_all

lemma hex_digits_alphabet: "\<forall>d \<in> set [0..<16]. hex_digit d \<in> hex_alphabet"
  by code_simp

lemma hex_digit_alphabet: "d < 16 \<Longrightarrow> hex_digit d \<in> hex_alphabet"
  using hex_digits_alphabet by simp

lemma set_encode: "set (encode bs) \<subseteq> hex_alphabet"
  by (induction bs) (simp_all add: hex_digit_alphabet high_half)

lemma hex_digit_ascii: "d < 16 \<Longrightarrow> (of_char (hex_digit d) :: nat) < 128"
  by (simp add: hex_digit_def)

lemma utf8_ascii: "\<forall>n \<in> set ns. n < 128 \<Longrightarrow> utf8 ns"
  by (induction ns) simp_all

lemma utf8_valid_encode: "utf8_valid (encode bs)"
  unfolding utf8_valid_def
  by (rule utf8_ascii) (induction bs, simp_all add: hex_digit_ascii high_half)


lemma WRAP_STRING_TO_well_formed:
  "WRAP_STRING_CHECK h a \<Longrightarrow> well_formed a \<Longrightarrow>
   WRAP_STRING_TO h a = (\<lparr>pointer = Chars (string_of a), slength = length (string_of a)\<rparr>, h)"
  by (cases a)
     (simp_all add: WRAP_STRING_CHECK_def WRAP_STRING_TO_def well_formed_def string_of_def
        split: if_splits)

lemma WRAP_STRING_TO_lone_surrogate:
  "3 \<le> PY_MAJOR_VERSION h \<Longrightarrow>
   WRAP_STRING_CHECK h (PyLoneSurrogate cps) \<and>
   WRAP_STRING_TO h (PyLoneSurrogate cps) =
     (\<lparr>pointer = NULL, slength = uninitialised h\<rparr>,
      h\<lparr>curexc := Some (PyErr PyExc_UnicodeEncodeError None)\<rparr>)"
  by (simp add: WRAP_STRING_CHECK_def WRAP_STRING_TO_def PyErr_SetObject_def)

lemma binding_lone_surrogate_raises:
  "3 \<le> PY_MAJOR_VERSION h \<Longrightarrow>
   curexc (snd (translate_to_from_ascii16 [PyLoneSurrogate cps] f h)) \<noteq> None"
  by (auto simp: translate_to_from_ascii16_def PyArg_ParseTuple_O_def
        WRAP_STRING_TO_lone_surrogate WRAP_STRING_FROM_def PyErr_SetObject_def
      split: sum.splits prod.splits if_splits)

lemma WRAP_STRING_FROM_ok:
  "(3 \<le> PY_MAJOR_VERSION h \<Longrightarrow> utf8_valid s) \<Longrightarrow>
   WRAP_STRING_FROM (Chars s) (length s) h = (Some (py_str h s), h)"
  by (simp add: WRAP_STRING_FROM_def chars_at_def py_str_def)

lemma translate_to_ascii16_string:
  "WRAP_STRING_CHECK h a \<Longrightarrow> well_formed a \<Longrightarrow>
   translate_to_ascii16 [a] h = (Some (py_str h (encode (string_of a))), h)"
  by (simp add: translate_to_ascii16_def translate_to_from_ascii16_def PyArg_ParseTuple_O_def
        luxem_to_ascii16_def Let_def WRAP_STRING_TO_well_formed chars_at_def
        WRAP_STRING_FROM_ok utf8_valid_encode)

lemma py_str_string:
  "WRAP_STRING_CHECK h (py_str h s)" "string_of (py_str h s) = s"
  "well_formed (py_str h s) \<longleftrightarrow> (3 \<le> PY_MAJOR_VERSION h \<longrightarrow> utf8_valid s)"
  by (simp_all add: WRAP_STRING_CHECK_def py_str_def string_of_def well_formed_def)

lemma py_str_string_of:
  "WRAP_STRING_CHECK h a \<Longrightarrow> well_formed a \<Longrightarrow> py_str h (string_of a) = a"
  by (cases a)
     (simp_all add: WRAP_STRING_CHECK_def py_str_def string_of_def well_formed_def
        split: if_splits)

lemma translate_from_ascii16_encoded:
  assumes "3 \<le> PY_MAJOR_VERSION h \<Longrightarrow> utf8_valid s"
  shows "translate_from_ascii16 [py_str h (encode s)] h = (Some (py_str h s), h)"
  using assms
  by (simp add: translate_from_ascii16_def translate_to_from_ascii16_def PyArg_ParseTuple_O_def
        luxem_from_ascii16_def py_str_string WRAP_STRING_TO_well_formed utf8_valid_encode
        chars_at_def decode_def decode_at_encode WRAP_STRING_FROM_ok)

text \<open>
  Claim C8. The encoder never fails: for every byte sequence \<open>b\<close> the engine function
  returns a result, the string \<open>encode b\<close>, which is a function of \<open>b\<close> alone, is twice
  as long as \<open>b\<close> and consists of hexadecimal digits. Through the binding,
  \<^verbatim>\<open>to_ascii16\<close> applied to any string object that is held by its bytes returns the
  encoding of those bytes as a string object and leaves the host unchanged (no exception
  is set). A text string with a lone surrogate has no bytes to encode: the conversion of
  the argument fails on it and the call ends with an exception pending, as
  \<open>binding_lone_surrogate_raises\<close> shows.
\<close>

theorem to_ascii16_total:
  "luxem_to_ascii16 \<lparr>pointer = Chars b, slength = length b\<rparr> =
     Inr \<lparr>pointer = Chars (encode b), slength = 2 * length b\<rparr> \<and>
   set (encode b) \<subseteq> hex_alphabet \<and>
   (WRAP_STRING_CHECK h a \<longrightarrow> well_formed a \<longrightarrow>
      translate_to_ascii16 [a] h = (Some (py_str h (encode (string_of a))), h) \<and>
      length (encode (string_of a)) = 2 * length (string_of a))"
  by (simp add: luxem_to_ascii16_def chars_at_def length_encode set_encode
        translate_to_ascii16_string)

text \<open>
  Claim C4. Decoding the encoding of a byte sequence \<open>b\<close> gives \<open>b\<close> back, for every
  \<open>b\<close>; and through the binding, \<^verbatim>\<open>from_ascii16 (to_ascii16 a)\<close> is \<open>a\<close> for every
  string object \<open>a\<close> of the host, both calls succeeding and leaving the host unchanged.
\<close>

theorem ascii16_round_trip:
  "decode (encode b) = Inr b \<and>
   luxem_from_ascii16 \<lparr>pointer = Chars (encode b), slength = length (encode b)\<rparr> =
     Inr \<lparr>pointer = Chars b, slength = length b\<rparr> \<and>
   (WRAP_STRING_CHECK h a \<longrightarrow> well_formed a \<longrightarrow>
      (\<exists>e. translate_to_ascii16 [a] h = (Some e, h) \<and>
           translate_from_ascii16 [e] h = (Some a, h)))"
proof (intro conjI impI)
  show "decode (encode b) = Inr b" by (simp add: decode_def decode_at_encode)
  then show "luxem_from_ascii16 \<lparr>pointer = Chars (encode b), slength = length (encode b)\<rparr> =
      Inr \<lparr>pointer = Chars b, slength = length b\<rparr>"
    by (simp add: luxem_from_ascii16_def chars_at_def)
next
  assume s: "WRAP_STRING_CHECK h a" and wf: "well_formed a"
  have v: "3 \<le> PY_MAJOR_VERSION h \<Longrightarrow> utf8_valid (string_of a)"
    using s wf by (cases a) (simp_all add: WRAP_STRING_CHECK_def well_formed_def string_of_def)
  have "translate_from_ascii16 [py_str h (encode (string_of a))] h = (Some a, h)"
    using translate_from_ascii16_encoded [OF v] py_str_string_of [OF s wf] by simp
  with translate_to_ascii16_string [OF s wf]
  show "\<exists>e. translate_to_ascii16 [a] h = (Some e, h) \<and> translate_from_ascii16 [e] h = (Some a, h)"
    by blast
qed

lemma encode_AZ: "encode ''AZ'' = ''415a''"
  by code_simp

theorem to_ascii16_total_witness:
  "WRAP_STRING_CHECK host0 (PyUnicode ''AZ'') \<and> well_formed (PyUnicode ''AZ'') \<and>
   translate_to_ascii16 [PyUnicode ''AZ''] host0 = (Some (PyUnicode ''415a''), host0) \<and>
   length ''415a'' = 2 * length ''AZ''"
proof -
  have s: "WRAP_STRING_CHECK host0 (PyUnicode ''AZ'')"
    by (simp add: WRAP_STRING_CHECK_def host0_def)
  have wf: "well_formed (PyUnicode ''AZ'')"
    by (simp add: well_formed_def utf8_valid_def)
  have p: "py_str host0 ''415a'' = PyUnicode ''415a''" by (simp add: py_str_def host0_def)
  from to_ascii16_total [of "''AZ''" host0 "PyUnicode ''AZ''"] s wf
  have "translate_to_ascii16 [PyUnicode ''AZ''] host0 =
      (Some (py_str host0 (encode (string_of (PyUnicode ''AZ'')))), host0)"
    by blast
  then have "translate_to_ascii16 [PyUnicode ''AZ''] host0 = (Some (PyUnicode ''415a''), host0)"
    by (simp add: string_of_def encode_AZ p del: encode.simps)
  with s wf show ?thesis by simp
qed

theorem ascii16_round_trip_witness:
  "WRAP_STRING_CHECK host0 (PyUnicode ''AZ'') \<and> well_formed (PyUnicode ''AZ'') \<and>
   translate_to_ascii16 [PyUnicode ''AZ''] host0 = (Some (PyUnicode ''415a''), host0) \<and>
   translate_from_ascii16 [PyUnicode ''415a''] host0 = (Some (PyUnicode ''AZ''), host0)"
proof -
  have s: "WRAP_STRING_CHECK host0 (PyUnicode ''AZ'')"
    by (simp add: WRAP_STRING_CHECK_def host0_def)
  have wf: "well_formed (PyUnicode ''AZ'')"
    by (simp add: well_formed_def utf8_valid_def)
  have to: "translate_to_ascii16 [PyUnicode ''AZ''] host0 = (Some (PyUnicode ''415a''), host0)"
    using translate_to_ascii16_string [OF s wf]
    by (simp add: string_of_def encode_AZ py_str_def host0_def del: encode.simps)
  from ascii16_round_trip [of "''AZ''" host0 "PyUnicode ''AZ''"] s wf
  obtain e where "translate_to_ascii16 [PyUnicode ''AZ''] host0 = (Some e, host0)"
    and "translate_from_ascii16 [e] host0 = (Some (PyUnicode ''AZ''), host0)"
    by blast
  with to s wf show ?thesis by simp
qed

subsection \<open>Decoded bytes that are not text\<close>

lemma binding_rejects_undecodable_result:
  assumes "WRAP_STRING_CHECK h a" and "3 \<le> PY_MAJOR_VERSION h"
    and "WRAP_STRING_TO h a = (str, h)"
    and "f str = Inr out'"
    and "\<not> utf8_valid (chars_at (pointer out') (slength out'))"
  shows "translate_to_from_ascii16 [a] f h =
           (None, h\<lparr>curexc := Some (PyErr PyExc_UnicodeDecodeError None)\<rparr>)"
  using assms
  by (simp add: translate_to_from_ascii16_def PyArg_ParseTuple_O_def WRAP_STRING_FROM_def
        PyErr_SetObject_def)

lemma decode_ff: "decode ''ff'' = Inr [char_of (255 :: nat)]"
  by code_simp

lemma not_utf8_ff: "\<not> utf8_valid [char_of (255 :: nat)]"
  by (simp add: utf8_valid_def)

text \<open>
  Claim C5 lets \<^verbatim>\<open>from_ascii16\<close> fail only on input of odd length or with a character
  outside the hexadecimal alphabet. The string \<open>ff\<close> has even length and two
  hexadecimal digits, and the decoder turns it into the single byte 255. Built for
  Python 3, the binding makes a text string of the decoded bytes, which are not UTF-8:
  the call returns \<^verbatim>\<open>NULL\<close> with a \<^verbatim>\<open>UnicodeDecodeError\<close> pending. Built for
  Python 2, where the result is a byte string, the same call returns the byte.
\<close>

theorem from_ascii16_python3_valid_input_fails:
  "even (length ''ff'') \<and> set ''ff'' \<subseteq> hex_alphabet \<and>
   decode ''ff'' = Inr [char_of (255 :: nat)] \<and>
   translate_from_ascii16 [PyUnicode ''ff''] host0 =
     (None, host0\<lparr>curexc := Some (PyErr PyExc_UnicodeDecodeError None)\<rparr>) \<and>
   translate_from_ascii16 [PyBytes ''ff''] (host0\<lparr>PY_MAJOR_VERSION := 2\<rparr>) =
     (Some (PyBytes [char_of (255 :: nat)]), host0\<lparr>PY_MAJOR_VERSION := 2\<rparr>)"
proof -
  have s: "WRAP_STRING_CHECK host0 (PyUnicode ''ff'')" and v: "3 \<le> PY_MAJOR_VERSION host0"
    by (simp_all add: WRAP_STRING_CHECK_def host0_def)
  have t: "WRAP_STRING_TO host0 (PyUnicode ''ff'') =
      (\<lparr>pointer = Chars ''ff'', slength = 2\<rparr>, host0)"
    by (simp add: WRAP_STRING_TO_def host0_def)
  have f: "luxem_from_ascii16 \<lparr>pointer = Chars ''ff'', slength = 2\<rparr> =
      Inr \<lparr>pointer = Chars [char_of (255 :: nat)], slength = 1\<rparr>"
    by (simp add: luxem_from_ascii16_def chars_at_def decode_ff)
  have 3: "translate_from_ascii16 [PyUnicode ''ff''] host0 =
      (None, host0\<lparr>curexc := Some (PyErr PyExc_UnicodeDecodeError None)\<rparr>)"
    unfolding translate_from_ascii16_def
    by (rule binding_rejects_undecodable_result
          [where f = luxem_from_ascii16, OF s v t f])
       (simp add: chars_at_def not_utf8_ff)
  have 2: "translate_from_ascii16 [PyBytes ''ff''] (host0\<lparr>PY_MAJOR_VERSION := 2\<rparr>) =
      (Some (PyBytes [char_of (255 :: nat)]), host0\<lparr>PY_MAJOR_VERSION := 2\<rparr>)"
    by (simp add: translate_from_ascii16_def translate_to_from_ascii16_def
          PyArg_ParseTuple_O_def WRAP_STRING_CHECK_def WRAP_STRING_TO_def chars_at_def
          luxem_from_ascii16_def decode_ff WRAP_STRING_FROM_def host0_def)
  have a: "set ''ff'' \<subseteq> hex_alphabet" by (simp add: hex_alphabet_def)
  from a decode_ff 3 2 show ?thesis by simp
qed

end
